theory Spec2Isabelle
  imports Main "HOL-Library.Multiset" "HOL-Library.Sublist"
begin

section \<open>Utility methods of \<^verbatim>\<open>src/docs/Method.js\<close>\<close>

text \<open>
  The class \<^verbatim>\<open>UtilityMethods\<close> is a collection of independent methods. Each method that
  is verified below is embedded as a HOL function with the name of the method. A JavaScript
  string is a sequence of UTF-16 code units and \<^verbatim>\<open>length\<close> counts code units, so a string
  is a list of code units; where the method does not look at the code units the element
  type is left polymorphic.
\<close>

subsection \<open>Strings\<close>

text \<open>
  \<^verbatim>\<open>String.prototype.substring(start, end)\<close> for integer arguments: both arguments are
  clamped to the range from 0 to the length of the string, and they are exchanged when the
  start is larger than the end.
\<close>

definition substring :: "'c list \<Rightarrow> int \<Rightarrow> int \<Rightarrow> 'c list" where
  "substring s start end' =
     (let len = int (length s);
          finalStart = min (max start 0) len;
          finalEnd = min (max end' 0) len;
          from = min finalStart finalEnd;
          to = max finalStart finalEnd
      in take (nat (to - from)) (drop (nat from) s))"

text \<open>
  \<^verbatim>\<open>
  truncateText(text, maxLength, suffix = "...") {
    if (text.length <= maxLength) return text;
    return text.substring(0, maxLength - suffix.length) + suffix;
  }
  \<close>
  The number \<open>maxLength\<close> is an integer of either sign.
\<close>

definition truncateText :: "'c list \<Rightarrow> int \<Rightarrow> 'c list \<Rightarrow> 'c list" where
  "truncateText text maxLength sfx =
     (if int (length text) \<le> maxLength then text
      else substring text 0 (maxLength - int (length sfx)) @ sfx)"

text \<open>The default value of the third parameter.\<close>

definition truncateText_default :: "string \<Rightarrow> int \<Rightarrow> string" where
  "truncateText_default text maxLength = truncateText text maxLength ''...''"

subsection \<open>Numbers\<close>

text \<open>
  A number of the language is an IEEE 754 double. The doubles that occur below are not
  negative and are written \<open>numer / 2 ^ expo\<close>. Such a fraction is a double when
  \<open>expo\<close> is at most 1074 and \<open>numer\<close> has at most 53 significant bits; an integer
  below \<open>2 ^ 53\<close> is a double, which is why counters, lengths and indices are integers
  here.
\<close>

record double =
  numer :: nat
  expo :: nat

text \<open>
  The number of low bits that a numerator has beyond 53 significant bits, and the
  rounding of a numerator to 53 significant bits, to the nearest and on a tie to the even
  one, which is how the result of an arithmetic operation is rounded.
\<close>

function excess :: "nat \<Rightarrow> nat" where
  "excess a = (if a < 2 ^ 53 then 0 else Suc (excess (a div 2)))"
  by pat_completeness auto
termination
  by (relation "measure (\<lambda>a. a)") auto

declare excess.simps [simp del]

definition round53 :: "nat \<Rightarrow> nat" where
  "round53 a =
     (let s = excess a; q = a div 2 ^ s; r = a mod 2 ^ s
      in if s = 0 then a
         else (if 2 ^ (s - 1) < r \<or> (r = 2 ^ (s - 1) \<and> odd q) then q + 1 else q) * 2 ^ s)"

text \<open>
  \<^verbatim>\<open>x * n\<close> for a double \<open>x\<close> and a non-negative integer \<open>n\<close>: the exact product,
  rounded. \<^verbatim>\<open>Math.floor\<close> of a double is exact.
\<close>

definition multiply :: "double \<Rightarrow> nat \<Rightarrow> double" where
  "multiply x n = \<lparr>numer = round53 (numer x * n), expo = expo x\<rparr>"

definition Math_floor :: "double \<Rightarrow> int" where
  "Math_floor x = int (numer x div 2 ^ expo x)"

subsection \<open>The random source\<close>

text \<open>
  \<^verbatim>\<open>Math.random()\<close> reads and advances a hidden generator. The generator is the
  sequence of numbers that the coming calls return; a call returns the head and leaves the
  tail. The language promises that every number returned is a double that is at least 0
  and less than 1, which is the predicate \<open>unit_interval\<close>: these are the fractions with
  a numerator below \<open>2 ^ 53\<close> and below the denominator, and \<open>expo\<close> at most 1074.
\<close>

type_synonym rng = "nat \<Rightarrow> double"

definition Math_random :: "rng \<Rightarrow> double \<times> rng" where
  "Math_random g = (g 0, \<lambda>n. g (Suc n))"

definition unit_interval :: "rng \<Rightarrow> bool" where
  "unit_interval g \<longleftrightarrow>
     (\<forall>n. numer (g n) < 2 ^ 53 \<and> numer (g n) < 2 ^ expo (g n) \<and> expo (g n) \<le> 1074)"

subsection \<open>generateUniqueId\<close>

text \<open>
  \<^verbatim>\<open>String.prototype.charAt(pos)\<close>: the string of the one code unit at \<open>pos\<close>, or the
  empty string when \<open>pos\<close> is out of range.
\<close>

definition charAt :: "'c list \<Rightarrow> int \<Rightarrow> 'c list" where
  "charAt s pos = (if 0 \<le> pos \<and> pos < int (length s) then [s ! nat pos] else [])"

definition characters :: string where
  "characters = ''ABCDEFGHIJKLMNOPQRSTUVWXYZabcdefghijklmnopqrstuvwxyz0123456789''"

text \<open>
  \<^verbatim>\<open>
  let result = "";
  for (let i = 0; i < length; i++) {
    result += characters.charAt(Math.floor(Math.random() * characters.length));
  }
  return result;
  \<close>
  The loop is a recursion on the counter \<open>i\<close>; the generator is threaded through.
\<close>

function generateUniqueId_loop :: "int \<Rightarrow> int \<Rightarrow> string \<Rightarrow> rng \<Rightarrow> string \<times> rng" where
  "generateUniqueId_loop len i result g =
     (if i < len then
        (let (r, g') = Math_random g
         in generateUniqueId_loop len (i + 1)
              (result @ charAt characters (Math_floor (multiply r (length characters)))) g')
      else (result, g))"
  by pat_completeness auto
termination
  by (relation "measure (\<lambda>(len, i, result, g). nat (len - i))") auto

declare generateUniqueId_loop.simps [simp del]

definition generateUniqueId :: "int \<Rightarrow> rng \<Rightarrow> string \<times> rng" where
  "generateUniqueId len g = generateUniqueId_loop len 0 [] g"

text \<open>The default value of the parameter.\<close>

definition generateUniqueId_default :: "rng \<Rightarrow> string \<times> rng" where
  "generateUniqueId_default g = generateUniqueId 10 g"

text \<open>
  The ASCII upper-case letters, lower-case letters and digits, by their codes.
\<close>

definition alphanumeric :: "char \<Rightarrow> bool" where
  "alphanumeric c \<longleftrightarrow>
     (let n = (of_char c :: nat)
      in (65 \<le> n \<and> n \<le> 90) \<or> (97 \<le> n \<and> n \<le> 122) \<or> (48 \<le> n \<and> n \<le> 57))"

subsection \<open>shuffleArray\<close>

text \<open>
  An array element is any value of the language; \<open>Undefined\<close> is what reading a property
  that does not exist gives.
\<close>

datatype 'a js = Undefined | Value 'a

text \<open>
  An array is an object with a \<^verbatim>\<open>length\<close> and properties at integer keys. Reading a key
  gives the property or \<open>Undefined\<close>. Writing a key stores the property, and a key at or
  beyond the length extends the array, so that the length becomes the key plus one; a
  negative key is an ordinary property and leaves the length alone.
\<close>

record 'a js_array =
  arr_length :: nat
  at_key :: "int \<Rightarrow> 'a js"

definition get_elem :: "'a js_array \<Rightarrow> int \<Rightarrow> 'a js" where
  "get_elem a k = at_key a k"

definition set_elem :: "'a js_array \<Rightarrow> int \<Rightarrow> 'a js \<Rightarrow> 'a js_array" where
  "set_elem a k v = a\<lparr>at_key := (at_key a)(k := v), arr_length := max (arr_length a) (nat (k + 1))\<rparr>"

text \<open>The elements of an array, in the order of the indices, and the array of a list.\<close>

definition elements :: "'a js_array \<Rightarrow> 'a js list" where
  "elements a = map (\<lambda>k. get_elem a (int k)) [0..<arr_length a]"

definition array_of :: "'a list \<Rightarrow> 'a js_array" where
  "array_of xs =
     \<lparr>arr_length = length xs,
      at_key = (\<lambda>k. if 0 \<le> k \<and> k < int (length xs) then Value (xs ! nat k) else Undefined)\<rparr>"

text \<open>
  \<^verbatim>\<open>[...array]\<close> is a new array with the elements of \<open>array\<close> at the indices below its
  length and nothing else.
\<close>

definition spread :: "'a js_array \<Rightarrow> 'a js_array" where
  "spread a =
     \<lparr>arr_length = arr_length a,
      at_key = (\<lambda>k. if 0 \<le> k \<and> k < int (arr_length a) then get_elem a k else Undefined)\<rparr>"

text \<open>
  \<^verbatim>\<open>[shuffled[i], shuffled[j]] = [shuffled[j], shuffled[i]]\<close>: the right-hand side is
  read first, then \<open>shuffled[i]\<close> is written, then \<open>shuffled[j]\<close>.
\<close>

definition swap :: "'a js_array \<Rightarrow> int \<Rightarrow> int \<Rightarrow> 'a js_array" where
  "swap a i j =
     (let vj = get_elem a j;
          vi = get_elem a i;
          a1 = set_elem a i vj
      in set_elem a1 j vi)"

text \<open>
  Arrays are mutable objects that are passed by reference. The heap is the list of the
  arrays that exist; a reference is an index into it, and a new array is appended.
  \<^verbatim>\<open>
  const shuffled = [...array];
  for (let i = shuffled.length - 1; i > 0; i--) {
    const j = Math.floor(Math.random() * (i + 1));
    [shuffled[i], shuffled[j]] = [shuffled[j], shuffled[i]];
  }
  return shuffled;
  \<close>
\<close>

type_synonym 'a heap = "'a js_array list"

function shuffleArray_loop :: "int \<Rightarrow> nat \<Rightarrow> 'a heap \<Rightarrow> rng \<Rightarrow> 'a heap \<times> rng" where
  "shuffleArray_loop i shuffled h g =
     (if 0 < i then
        (let (r, g') = Math_random g;
             j = Math_floor (multiply r (nat (i + 1)))
         in shuffleArray_loop (i - 1) shuffled (h[shuffled := swap (h ! shuffled) i j]) g')
      else (h, g))"
  by pat_completeness auto
termination
  by (relation "measure (\<lambda>(i, shuffled, h, g). nat i)") auto

declare shuffleArray_loop.simps [simp del]

text \<open>
  The argument \<open>array\<close> is a reference to an array of the heap. The result is the
  reference \<open>shuffled\<close>, the heap and the random source after the call.
\<close>

definition shuffleArray :: "nat \<Rightarrow> 'a heap \<Rightarrow> rng \<Rightarrow> nat \<times> 'a heap \<times> rng" where
  "shuffleArray array h g =
     (let shuffled = length h;
          h1 = h @ [spread (h ! array)];
          (h2, g') = shuffleArray_loop (int (arr_length (h1 ! shuffled)) - 1) shuffled h1 g
      in (shuffled, h2, g'))"

subsection \<open>fetchWithTimeout\<close>

text \<open>
  \<^verbatim>\<open>
  async fetchWithTimeout(url, options = {}, timeout = 5000) {
    const controller = new AbortController();
    const id = setTimeout(() => controller.abort(), timeout);
    try {
      const response = await fetch(url, { ...options, signal: controller.signal });
      clearTimeout(id);
      return response;
    } catch (error) {
      clearTimeout(id);
      if (error.name === "AbortError") {
        throw new Error("La requete a ete abandonnee : delai d'attente depasse");
      }
      throw error;
    }
  }
  \<close>
  (The message is quoted here without its accents.)
  The method works on the timers, the abort controllers and the transport of the platform.
  They are an explicit state, the \<open>world\<close>, and every call of a platform operation is
  recorded in its \<open>trace\<close>.
\<close>

text \<open>
  An options bag maps property names to values. The value of \<^verbatim>\<open>signal\<close> is the signal
  of an abort controller, which is known by the handle of the controller.
\<close>

datatype 'v option_value = Signal nat | Plain 'v

type_synonym 'v options = "string \<rightharpoonup> 'v option_value"

text \<open>
  What a rejected promise carries, as far as \<^verbatim>\<open>catch\<close> looks at it: \<open>Nullish\<close> is
  \<^verbatim>\<open>null\<close> or \<^verbatim>\<open>undefined\<close>, on which reading \<^verbatim>\<open>error.name\<close> raises a
  \<^verbatim>\<open>TypeError\<close>; any other value has a \<^verbatim>\<open>name\<close>, which is a string or not, and the
  rest of it.
\<close>

datatype 'e js_exception = Nullish | Exception "string option" 'e

text \<open>
  The transport and the event loop are not part of the method. A \<open>transport_run\<close> says what
  they do during one call: either the promise of \<^verbatim>\<open>fetch\<close> settles before the timer
  fires, or the timer fires first and then, after the callback of the timer has run, the
  promise settles or never does.
\<close>

datatype ('r, 'e) settlement = Resolved 'r | Rejected "'e js_exception"

datatype ('r, 'e) transport_run =
    Settles_first "('r, 'e) settlement"
  | Timer_first "('r, 'e) settlement option"

datatype ('u, 'v) event =
    NewAbortController nat
  | SetTimeout nat nat int
  | Fetch 'u "'v options"
  | TimerFired nat
  | Abort nat
  | ClearTimeout nat

text \<open>
  The pending timers are kept with the controller that their callback aborts, since the
  only callback here is \<^verbatim>\<open>() => controller.abort()\<close>.
\<close>

record ('u, 'v) world =
  next_handle :: nat
  timers :: "nat \<rightharpoonup> nat"
  aborted :: "nat set"
  trace :: "('u, 'v) event list"

definition new_AbortController :: "('u, 'v) world \<Rightarrow> nat \<times> ('u, 'v) world" where
  "new_AbortController w =
     (next_handle w,
      w\<lparr>next_handle := Suc (next_handle w),
        trace := trace w @ [NewAbortController (next_handle w)]\<rparr>)"

definition setTimeout :: "nat \<Rightarrow> int \<Rightarrow> ('u, 'v) world \<Rightarrow> nat \<times> ('u, 'v) world" where
  "setTimeout controller timeout w =
     (next_handle w,
      w\<lparr>next_handle := Suc (next_handle w),
        timers := (timers w)(next_handle w \<mapsto> controller),
        trace := trace w @ [SetTimeout (next_handle w) controller timeout]\<rparr>)"

definition clearTimeout :: "nat \<Rightarrow> ('u, 'v) world \<Rightarrow> ('u, 'v) world" where
  "clearTimeout id' w =
     w\<lparr>timers := (timers w)(id' := None), trace := trace w @ [ClearTimeout id']\<rparr>"

definition abort :: "nat \<Rightarrow> ('u, 'v) world \<Rightarrow> ('u, 'v) world" where
  "abort controller w =
     w\<lparr>aborted := insert controller (aborted w), trace := trace w @ [Abort controller]\<rparr>"

text \<open>A pending timer fires: it is no longer pending and its callback runs.\<close>

definition timer_fires :: "nat \<Rightarrow> ('u, 'v) world \<Rightarrow> ('u, 'v) world" where
  "timer_fires id' w =
     (case timers w id' of
        None \<Rightarrow> w
      | Some controller \<Rightarrow>
          abort controller
            (w\<lparr>timers := (timers w)(id' := None), trace := trace w @ [TimerFired id']\<rparr>))"

definition fetch :: "'u \<Rightarrow> 'v options \<Rightarrow> ('u, 'v) world \<Rightarrow> ('u, 'v) world" where
  "fetch url init w = w\<lparr>trace := trace w @ [Fetch url init]\<rparr>"

text \<open>
  How the promise of the method is rejected: with the \<^verbatim>\<open>new Error\<close> of the method, with
  the error of the transport itself, or with the \<^verbatim>\<open>TypeError\<close> of reading the name of
  \<^verbatim>\<open>null\<close> or \<^verbatim>\<open>undefined\<close>.
\<close>

datatype 'e failure = New_Error string | Original "'e js_exception" | TypeError

text \<open>
  The message of the method. Its accented letters are the code units \<open>0xEA\<close> and
  \<open>0xE9\<close>.
\<close>

definition timeout_message :: string where
  "timeout_message =
     ''La requ'' @ [CHR 0xEA] @ ''te a '' @ [CHR 0xE9] @ ''t'' @ [CHR 0xE9] @ '' abandonn''
     @ [CHR 0xE9] @ ''e : d'' @ [CHR 0xE9] @ ''lai d'' @ [CHR 0x27] @ ''attente d''
     @ [CHR 0xE9] @ ''pass'' @ [CHR 0xE9]"

definition catch_block ::
  "nat \<Rightarrow> 'e js_exception \<Rightarrow> ('u, 'v) world \<Rightarrow> ('e failure + 'r) \<times> ('u, 'v) world" where
  "catch_block id' error w =
     (let w1 = clearTimeout id' w
      in case error of
           Nullish \<Rightarrow> (Inl TypeError, w1)
         | Exception name x \<Rightarrow>
             if name = Some ''AbortError'' then (Inl (New_Error timeout_message), w1)
             else (Inl (Original error), w1))"

text \<open>The rest of the \<^verbatim>\<open>try\<close> block once the awaited promise has settled.\<close>

definition try_block ::
  "nat \<Rightarrow> ('r, 'e) settlement \<Rightarrow> ('u, 'v) world \<Rightarrow> ('e failure + 'r) \<times> ('u, 'v) world" where
  "try_block id' s w =
     (case s of
        Resolved response \<Rightarrow> (Inr response, clearTimeout id' w)
      | Rejected error \<Rightarrow> catch_block id' error w)"

text \<open>
  The result is \<open>None\<close> when the promise of the method never settles, which happens when
  the awaited promise never does.
\<close>

definition fetchWithTimeout ::
  "('r, 'e) transport_run \<Rightarrow> 'u \<Rightarrow> 'v options \<Rightarrow> int \<Rightarrow> ('u, 'v) world
     \<Rightarrow> ('e failure + 'r) option \<times> ('u, 'v) world" where
  "fetchWithTimeout run url options timeout w =
     (let (controller, w1) = new_AbortController w;
          (id', w2) = setTimeout controller timeout w1;
          w3 = fetch url (options(''signal'' \<mapsto> Signal controller)) w2
      in case run of
           Settles_first s \<Rightarrow>
             (let (res, w4) = try_block id' s w3 in (Some res, w4))
         | Timer_first after \<Rightarrow>
             (let w4 = timer_fires id' w3
              in case after of
                   None \<Rightarrow> (None, w4)
                 | Some s \<Rightarrow> (let (res, w5) = try_block id' s w4 in (Some res, w5))))"

text \<open>The default values of the second and the third parameter.\<close>

definition fetchWithTimeout_default ::
  "('r, 'e) transport_run \<Rightarrow> 'u \<Rightarrow> ('u, 'v) world \<Rightarrow> ('e failure + 'r) option \<times> ('u, 'v) world" where
  "fetchWithTimeout_default run url w = fetchWithTimeout run url Map.empty 5000 w"

subsection \<open>Observations on a call\<close>

text \<open>
  The platform operations that a call has made are the events it has added to the trace.
  \<open>requests\<close> are the calls of the transport among them, and \<open>received\<close> is what these
  calls were given for one option.
\<close>

definition new_events :: "('u, 'v) world \<Rightarrow> ('u, 'v) world \<Rightarrow> ('u, 'v) event list" where
  "new_events w w' = drop (length (trace w)) (trace w')"

fun is_SetTimeout :: "('u, 'v) event \<Rightarrow> bool" where
  "is_SetTimeout (SetTimeout id' controller timeout) = True"
| "is_SetTimeout e = False"

fun is_Abort :: "('u, 'v) event \<Rightarrow> bool" where
  "is_Abort (Abort controller) = True"
| "is_Abort e = False"

fun requests :: "('u, 'v) event list \<Rightarrow> ('u \<times> 'v options) list" where
  "requests [] = []"
| "requests (Fetch url init # es) = (url, init) # requests es"
| "requests (e # es) = requests es"

definition received :: "('u, 'v) event list \<Rightarrow> string \<Rightarrow> 'v option_value option list" where
  "received es k = map (\<lambda>(url, init). init k) (requests es)"

text \<open>The three kinds of outcome, and the call that never returns.\<close>

datatype outcome_kind = Success | TimedOut | OtherFailure | Pending

fun kind :: "('e failure + 'r) option \<Rightarrow> outcome_kind" where
  "kind (Some (Inr response)) = Success"
| "kind (Some (Inl (New_Error message))) = TimedOut"
| "kind (Some (Inl (Original error))) = OtherFailure"
| "kind (Some (Inl TypeError)) = OtherFailure"
| "kind None = Pending"

text \<open>A world in which nothing has happened yet.\<close>

definition world0 :: "(string, string) world" where
  "world0 = \<lparr>next_handle = 0, timers = Map.empty, aborted = {}, trace = []\<rparr>"

subsection \<open>The transport and the event loop\<close>

text \<open>
  What a run is follows from what the method has asked of the platform. The transport is
  a function: on a request it plans how long the request takes and how it settles when it
  is left alone, if it settles at all, and how it settles, if at all, once its signal has
  been aborted. The transport is given a signal that has not been aborted, and it cannot
  tell one such signal from another, so it sees the options with \<open>Seen_signal\<close> in the
  place of every signal.
\<close>

datatype 'v seen = Seen 'v | Seen_signal

definition seen_options :: "'v options \<Rightarrow> (string \<rightharpoonup> 'v seen)" where
  "seen_options init k =
     (case init k of
        None \<Rightarrow> None
      | Some (Plain v) \<Rightarrow> Some (Seen v)
      | Some (Signal c) \<Rightarrow> Some Seen_signal)"

record ('r, 'e) plan =
  unaided :: "(nat \<times> ('r, 'e) settlement) option"
  once_aborted :: "('r, 'e) settlement option"

type_synonym ('u, 'v, 'r, 'e) transport = "'u \<Rightarrow> (string \<rightharpoonup> 'v seen) \<Rightarrow> ('r, 'e) plan"

text \<open>
  Times are in milliseconds. A platform runs a timer whose timeout is below its minimum
  delay with the minimum delay, which is 0 in a browser and 1 in Node; a timeout above
  \<open>2 ^ 31 - 1\<close> is run with the minimum delay as well. When the request and the timer
  are due at the same time, the platform decides which comes first.
\<close>

record platform =
  min_delay :: nat
  request_wins_tie :: bool

definition timer_delay :: "platform \<Rightarrow> int \<Rightarrow> nat" where
  "timer_delay p timeout =
     (if timeout < int (min_delay p) \<or> 2 ^ 31 - 1 < timeout then min_delay p else nat timeout)"

definition race :: "platform \<Rightarrow> ('r, 'e) plan \<Rightarrow> nat \<Rightarrow> ('r, 'e) transport_run" where
  "race p pl delay =
     (case unaided pl of
        None \<Rightarrow> Timer_first (once_aborted pl)
      | Some (l, s) \<Rightarrow>
          if l < delay \<or> (l = delay \<and> request_wins_tie p) then Settles_first s
          else Timer_first (once_aborted pl))"

text \<open>
  The timeout with which a timer was set, read from a trace with the latest event first.
\<close>

fun timeout_of :: "nat \<Rightarrow> ('u, 'v) event list \<Rightarrow> int option" where
  "timeout_of id' [] = None"
| "timeout_of id' (SetTimeout i controller timeout # es) =
     (if i = id' then Some timeout else timeout_of id' es)"
| "timeout_of id' (e # es) = timeout_of id' es"

text \<open>
  While the method awaits, the event loop runs the latest request of the trace against
  the timer \<open>id'\<close>, with the timeout that the timer was set with. Without a request
  nothing settles, and without a timer the request is left alone.
\<close>

definition event_loop ::
  "platform \<Rightarrow> ('u, 'v, 'r, 'e) transport \<Rightarrow> nat \<Rightarrow> ('u, 'v) world \<Rightarrow> ('r, 'e) transport_run" where
  "event_loop p T id' w =
     (case requests (rev (trace w)) of
        [] \<Rightarrow> Timer_first None
      | (url, init) # rs \<Rightarrow>
          (case timeout_of id' (rev (trace w)) of
             None \<Rightarrow>
               (case unaided (T url (seen_options init)) of
                  None \<Rightarrow> Timer_first None
                | Some (l, s) \<Rightarrow> Settles_first s)
           | Some timeout \<Rightarrow> race p (T url (seen_options init)) (timer_delay p timeout)))"

text \<open>
  The method on a platform and a transport: the body is the one of \<open>fetchWithTimeout\<close>,
  and the run is what the event loop makes of the calls of the method.
\<close>

definition fetchWithTimeout_on ::
  "platform \<Rightarrow> ('u, 'v, 'r, 'e) transport \<Rightarrow> 'u \<Rightarrow> 'v options \<Rightarrow> int \<Rightarrow> ('u, 'v) world
     \<Rightarrow> ('e failure + 'r) option \<times> ('u, 'v) world" where
  "fetchWithTimeout_on p T url options timeout w =
     (let (controller, w1) = new_AbortController w;
          (id', w2) = setTimeout controller timeout w1;
          w3 = fetch url (options(''signal'' \<mapsto> Signal controller)) w2
      in case event_loop p T id' w3 of
           Settles_first s \<Rightarrow>
             (let (res, w4) = try_block id' s w3 in (Some res, w4))
         | Timer_first after \<Rightarrow>
             (let w4 = timer_fires id' w3
              in case after of
                   None \<Rightarrow> (None, w4)
                 | Some s \<Rightarrow> (let (res, w5) = try_block id' s w4 in (Some res, w5))))"

text \<open>
  The requests as the transport sees them, and the timeouts that timers were set with.
\<close>

definition seen_requests :: "('u, 'v) event list \<Rightarrow> ('u \<times> (string \<rightharpoonup> 'v seen)) list" where
  "seen_requests es = map (\<lambda>(url, init). (url, seen_options init)) (requests es)"

fun timeouts_set :: "('u, 'v) event list \<Rightarrow> int list" where
  "timeouts_set [] = []"
| "timeouts_set (SetTimeout id' controller timeout # es) = timeout # timeouts_set es"
| "timeouts_set (e # es) = timeouts_set es"



section \<open>Verified properties\<close>

subsection \<open>truncateText\<close>

lemma substring_prefix:
  "0 \<le> n \<Longrightarrow> n \<le> int (length s) \<Longrightarrow> substring s 0 n = take (nat n) s"
  by (simp add: substring_def Let_def min_def max_def)

text \<open>
  C8. When the suffix is no longer than \<open>maxLength\<close>: a text longer than \<open>maxLength\<close>
  is turned into a string of exactly \<open>maxLength\<close> code units that ends with the suffix,
  and any other text is returned unchanged.
\<close>

theorem truncateText_length_and_suffix:
  assumes "int (length sfx) \<le> maxLength"
  shows "(maxLength < int (length text) \<longrightarrow>
            int (length (truncateText text maxLength sfx)) = maxLength
            \<and> suffix sfx (truncateText text maxLength sfx))
         \<and> (\<not> maxLength < int (length text) \<longrightarrow> truncateText text maxLength sfx = text)"
proof (cases "maxLength < int (length text)")
  case True
  let ?n = "maxLength - int (length sfx)"
  from assms True have n: "0 \<le> ?n" "?n \<le> int (length text)" by simp_all
  have eq: "truncateText text maxLength sfx = take (nat ?n) text @ sfx"
    using True n by (simp add: truncateText_def substring_prefix)
  have "int (length (take (nat ?n) text @ sfx)) = maxLength"
    using n assms by simp
  moreover have "suffix sfx (take (nat ?n) text @ sfx)"
    by (rule suffix_appendI) simp
  ultimately show ?thesis using True eq by simp
next
  case False
  then show ?thesis by (simp add: truncateText_def)
qed

theorem truncateText_length_and_suffix_witness:
  "int (length ''...'') \<le> 10
   \<and> truncateText ''Un long texte ici'' 10 ''...'' = ''Un long...''
   \<and> int (length (truncateText ''Un long texte ici'' 10 ''...'')) = 10
   \<and> suffix ''...'' (truncateText ''Un long texte ici'' 10 ''...'')
   \<and> truncateText ''court'' 10 ''...'' = ''court''"
  using truncateText_length_and_suffix [of "''...''" 10 "''Un long texte ici''"]
    truncateText_length_and_suffix [of "''...''" 10 "''court''"]
  by (simp add: truncateText_def substring_def)

subsection \<open>Numbers\<close>

lemma excess_lower: "0 < excess a \<Longrightarrow> 2 ^ (excess a + 52) \<le> a"
proof (induction a rule: excess.induct)
  case (1 a)
  from "1.prems" have big: "\<not> a < 2 ^ 53" by (subst (asm) excess.simps) (simp split: if_splits)
  then have e: "excess a = Suc (excess (a div 2))" by (subst excess.simps) simp
  show ?case
  proof (cases "excess (a div 2)")
    case 0
    with e big show ?thesis by simp
  next
    case (Suc k)
    then have "2 ^ (excess (a div 2) + 52) \<le> a div 2" using "1.IH" [OF big] by simp
    then have "2 * 2 ^ (excess (a div 2) + 52) \<le> 2 * (a div 2)" by simp
    also have "\<dots> \<le> a" by simp
    finally have "2 * 2 ^ (excess (a div 2) + 52) \<le> a" .
    then have "2 ^ Suc (excess (a div 2) + 52) \<le> a" by (simp only: power_Suc)
    then show ?thesis unfolding e by (simp only: add_Suc)
  qed
qed

lemma round53_small: "excess a = 0 \<Longrightarrow> round53 a = a"
  by (simp add: round53_def)

lemma round53_upper:
  assumes "0 < excess a"
  shows "round53 a \<le> a + 2 ^ (excess a - 1)"
proof -
  define s where "s = excess a"
  define q where "q = a div 2 ^ s"
  define r where "r = a mod 2 ^ s"
  define h :: nat where "h = 2 ^ (s - 1)"
  have s: "0 < s" using assms by (simp add: s_def)
  then have two_h: "2 ^ s = 2 * h" by (cases s) (simp_all add: h_def)
  have a: "a = q * 2 ^ s + r" unfolding q_def r_def by (rule div_mult_mod_eq [symmetric])
  have "round53 a = (if h < r \<or> (r = h \<and> odd q) then q + 1 else q) * 2 ^ s"
    using s by (simp add: round53_def Let_def s_def q_def r_def h_def)
  moreover have "q * 2 ^ s \<le> a + h" using a by simp
  moreover have "h \<le> r \<Longrightarrow> (q + 1) * 2 ^ s \<le> a + h"
    using a two_h by (simp add: algebra_simps)
  ultimately show ?thesis
    unfolding s_def [symmetric] h_def [symmetric] by (auto split: if_splits)
qed

lemma round53_below:
  assumes m53: "m < 2 ^ 53" and m1: "m < 2 ^ e" and n: "0 < n"
  shows "round53 (m * n) < n * 2 ^ e"
proof -
  define K :: int where "K = 2 ^ 53"
  define E :: int where "E = 2 ^ e"
  define A :: int where "A = int (round53 (m * n))"
  define a :: int where "a = int m * int n"
  have K: "1 < K" by (simp add: K_def)
  have E: "0 < E" by (simp add: E_def)
  have mK: "int m * K \<le> (K - 1) * E"
  proof (cases "e \<le> 53")
    case True
    then have "(2::int) ^ e \<le> 2 ^ 53" by (intro power_increasing) simp_all
    then have EK: "E \<le> K" by (simp add: E_def K_def)
    from m1 have "int m < E" unfolding E_def by (metis of_nat_less_iff of_nat_numeral of_nat_power)
    then have "int m \<le> E - 1" by simp
    then have "int m * K \<le> (E - 1) * K" using K by (intro mult_right_mono) simp_all
    also have "\<dots> \<le> (K - 1) * E" using EK by (simp add: algebra_simps)
    finally show ?thesis .
  next
    case False
    then have "(2::int) ^ 53 \<le> 2 ^ e" by (intro power_increasing) simp_all
    then have KE: "K \<le> E" by (simp add: E_def K_def)
    from m53 have "int m < K" unfolding K_def by (metis of_nat_less_iff of_nat_numeral of_nat_power)
    then have "int m \<le> K - 1" by simp
    then have "int m * K \<le> (K - 1) * K" using K by (intro mult_right_mono) simp_all
    also have "\<dots> \<le> (K - 1) * E" using KE K by (intro mult_left_mono) simp_all
    finally show ?thesis .
  qed
  have aK: "a * K \<le> (K - 1) * (int n * E)"
  proof -
    have "a * K = int n * (int m * K)" by (simp add: a_def algebra_simps)
    also have "\<dots> \<le> int n * ((K - 1) * E)" using mK by (intro mult_left_mono) simp_all
    finally show ?thesis by (simp add: algebra_simps)
  qed
  have N: "0 < int n * E" using n E by simp
  have "A < int n * E"
  proof (cases "excess (m * n) = 0")
    case True
    then have "A = a" by (simp add: A_def a_def round53_small)
    with aK have "A * K \<le> (K - 1) * (int n * E)" by simp
    also have "\<dots> < K * (int n * E)" using N by (intro mult_strict_right_mono) simp_all
    finally show ?thesis using K by (simp add: mult.commute)
  next
    case False
    then have pos: "0 < excess (m * n)" by simp
    define h :: int where "h = 2 ^ (excess (m * n) - 1)"
    have eq: "(2::nat) ^ (excess (m * n) + 52) = 2 ^ (excess (m * n) - 1) * 2 ^ 53"
    proof -
      obtain k where k: "excess (m * n) = Suc k" using pos by (cases "excess (m * n)") auto
      have "Suc k + 52 = k + 53" by simp
      then have "(2::nat) ^ (Suc k + 52) = 2 ^ k * 2 ^ 53" by (simp only: power_add)
      then show ?thesis unfolding k by (simp only: diff_Suc_1)
    qed
    have "2 ^ (excess (m * n) - 1) * 2 ^ 53 \<le> m * n"
      using excess_lower [OF pos] unfolding eq .
    then have "int (2 ^ (excess (m * n) - 1) * 2 ^ 53) \<le> int (m * n)"
      by (simp only: of_nat_le_iff)
    then have hK: "h * K \<le> a"
      unfolding h_def K_def a_def by (simp only: of_nat_mult of_nat_power of_nat_numeral)
    have "int (round53 (m * n)) \<le> int (m * n + 2 ^ (excess (m * n) - 1))"
      using round53_upper [OF pos] by (simp only: of_nat_le_iff)
    then have Ah: "A \<le> a + h" by (simp add: A_def a_def h_def)
    have a0: "0 \<le> a" by (simp add: a_def)
    have "A * (K * K) \<le> (a + h) * (K * K)" using Ah K by (intro mult_right_mono) simp_all
    also have "\<dots> = a * K * K + h * K * K" by (simp add: algebra_simps)
    also have "\<dots> \<le> a * K * K + a * K" using hK K by (simp add: mult_right_mono)
    also have "\<dots> = (a * K) * (K + 1)" by (simp add: algebra_simps)
    also have "\<dots> \<le> ((K - 1) * (int n * E)) * (K + 1)"
      using aK K by (intro mult_right_mono) simp_all
    also have "\<dots> = (K * K - 1) * (int n * E)" by (simp add: algebra_simps)
    also have "\<dots> < (K * K) * (int n * E)" using N by (intro mult_strict_right_mono) simp_all
    finally have "A * (K * K) < (int n * E) * (K * K)" by (simp add: mult.commute)
    moreover have "0 < K * K" using K by simp
    ultimately show ?thesis by (simp add: mult_less_cancel_right)
  qed
  then have "int (round53 (m * n)) < int (n * 2 ^ e)" by (simp add: A_def E_def)
  then show ?thesis by (simp only: of_nat_less_iff)
qed

lemma Math_floor_multiply:
  assumes "numer x < 2 ^ 53" "numer x < 2 ^ expo x" "0 < n"
  shows "0 \<le> Math_floor (multiply x n) \<and> Math_floor (multiply x n) < int n"
proof -
  have "round53 (numer x * n) < n * 2 ^ expo x" using assms by (rule round53_below)
  then have "round53 (numer x * n) div 2 ^ expo x < n"
    by (simp add: less_mult_imp_div_less)
  then show ?thesis by (simp add: Math_floor_def multiply_def)
qed

subsection \<open>generateUniqueId\<close>

lemma characters_alphanumeric: "c \<in> set characters \<Longrightarrow> alphanumeric c"
  by (auto simp: characters_def alphanumeric_def)

lemma range_chars:
  "\<forall>n \<in> set ([65..<91] @ [97..<123] @ [48..<58]). (char_of (n::nat) :: char) \<in> set characters"
  by code_simp

lemma alphanumeric_characters:
  assumes "alphanumeric c"
  shows "c \<in> set characters"
proof -
  let ?n = "of_char c :: nat"
  from assms
  have "(65 \<le> ?n \<and> ?n < 91) \<or> (97 \<le> ?n \<and> ?n < 123) \<or> (48 \<le> ?n \<and> ?n < 58)"
    unfolding alphanumeric_def Let_def by arith
  then have "?n \<in> set ([65..<91] @ [97..<123] @ [48..<58])"
    by (simp only: set_append set_upt Un_iff atLeastLessThan_iff)
  with range_chars have "(char_of ?n :: char) \<in> set characters" by blast
  then show ?thesis by simp
qed

lemma Math_random_unit_interval:
  assumes "unit_interval g" "Math_random g = (r, g')"
  shows "numer r < 2 ^ 53" "numer r < 2 ^ expo r" "unit_interval g'"
  using assms by (auto simp: Math_random_def unit_interval_def)

lemma generateUniqueId_loop_spec:
  "unit_interval g \<Longrightarrow> i \<le> len \<Longrightarrow>
   int (length (fst (generateUniqueId_loop len i result g))) = int (length result) + (len - i)
   \<and> set (fst (generateUniqueId_loop len i result g)) \<subseteq> set result \<union> set characters"
proof (induction len i result g rule: generateUniqueId_loop.induct)
  case (1 len i result g)
  show ?case
  proof (cases "i < len")
    case False
    with "1.prems" show ?thesis by (simp add: generateUniqueId_loop.simps)
  next
    case True
    obtain r g' where rg: "Math_random g = (r, g')" by (cases "Math_random g")
    note r = Math_random_unit_interval(1,2) [OF "1.prems"(1) rg]
    note g' = Math_random_unit_interval(3) [OF "1.prems"(1) rg]
    let ?k = "Math_floor (multiply r (length characters))"
    have "0 < length characters" by (simp add: characters_def)
    then have k: "0 \<le> ?k \<and> ?k < int (length characters)"
      by (rule Math_floor_multiply [OF r])
    then have c: "charAt characters ?k = [characters ! nat ?k]" by (simp add: charAt_def)
    from k have "nat ?k < length characters" by linarith
    then have mem: "characters ! nat ?k \<in> set characters" by (rule nth_mem)
    have IH: "int (length (fst (generateUniqueId_loop len (i + 1) (result @ charAt characters ?k) g')))
               = int (length (result @ charAt characters ?k)) + (len - (i + 1))
             \<and> set (fst (generateUniqueId_loop len (i + 1) (result @ charAt characters ?k) g'))
               \<subseteq> set (result @ charAt characters ?k) \<union> set characters"
      using "1.IH" [OF True rg [symmetric] refl g'] True by simp
    have step: "generateUniqueId_loop len i result g
                 = generateUniqueId_loop len (i + 1) (result @ charAt characters ?k) g'"
      using True rg by (subst generateUniqueId_loop.simps) simp
    show ?thesis using IH mem unfolding step c by auto
  qed
qed

text \<open>
  C10. For a non-negative integer \<open>len\<close>, and a random source that keeps the language's
  promise, the identifier has exactly \<open>len\<close> characters, and each of them belongs to
  \<open>characters\<close>, which consists of 62 distinct characters: exactly the ASCII upper-case
  letters, lower-case letters and digits.
\<close>

theorem generateUniqueId_length_alphabet:
  assumes "unit_interval g" and "0 \<le> len"
  shows "int (length (fst (generateUniqueId len g))) = len
         \<and> (\<forall>c \<in> set (fst (generateUniqueId len g)). c \<in> set characters \<and> alphanumeric c)
         \<and> length characters = 62 \<and> distinct characters
         \<and> set characters = {c. alphanumeric c}"
proof -
  have loop: "int (length (fst (generateUniqueId len g))) = len"
    "set (fst (generateUniqueId len g)) \<subseteq> set characters"
    using generateUniqueId_loop_spec [OF assms(1), of 0 len "[]"] assms(2)
    by (simp_all add: generateUniqueId_def)
  have "length characters = 62" "distinct characters"
    by (simp_all add: characters_def)
  moreover have "set characters = {c. alphanumeric c}"
    using characters_alphanumeric alphanumeric_characters by blast
  ultimately show ?thesis using loop characters_alphanumeric by blast
qed

theorem generateUniqueId_length_alphabet_witness:
  "unit_interval
     (\<lambda>n. if n = 0 then \<lparr>numer = 1162219258676257, expo = 51\<rparr> else \<lparr>numer = 3, expo = 2\<rparr>)
   \<and> (0::int) \<le> 3
   \<and> fst (generateUniqueId 3
        (\<lambda>n. if n = 0 then \<lparr>numer = 1162219258676257, expo = 51\<rparr> else \<lparr>numer = 3, expo = 2\<rparr>))
       = ''guu''
   \<and> int (length (fst (generateUniqueId 3
        (\<lambda>n. if n = 0 then \<lparr>numer = 1162219258676257, expo = 51\<rparr> else \<lparr>numer = 3, expo = 2\<rparr>)))) = 3
   \<and> list_all alphanumeric (fst (generateUniqueId 3
        (\<lambda>n. if n = 0 then \<lparr>numer = 1162219258676257, expo = 51\<rparr> else \<lparr>numer = 3, expo = 2\<rparr>)))"
proof -
  let ?g = "\<lambda>n::nat. if n = 0 then \<lparr>numer = 1162219258676257, expo = 51\<rparr>
                      else \<lparr>numer = 3, expo = 2\<rparr>"
  have g: "unit_interval ?g" by (simp add: unit_interval_def)
  have len: "length characters = 62" by (simp add: characters_def)
  have i0: "Math_floor (multiply \<lparr>numer = 1162219258676257, expo = 51\<rparr> (length characters)) = 32"
    unfolding len by (simp add: Math_floor_def multiply_def round53_def excess.simps Let_def)
  have i1: "Math_floor (multiply \<lparr>numer = 3, expo = 2\<rparr> (length characters)) = 46"
    unfolding len by (simp add: Math_floor_def multiply_def round53_def excess.simps Let_def)
  have c0: "charAt characters 32 = ''g''" by (simp add: charAt_def characters_def)
  have c1: "charAt characters 46 = ''u''" by (simp add: charAt_def characters_def)
  have v: "fst (generateUniqueId 3 ?g) = ''guu''"
    by (simp add: generateUniqueId_def generateUniqueId_loop.simps Math_random_def i0 i1 c0 c1)
  show ?thesis
    using generateUniqueId_length_alphabet [OF g, of 3] g v by (simp add: list_all_iff)
qed

subsection \<open>shuffleArray\<close>

lemma elements_spread: "arr_length (spread a) = arr_length a" "elements (spread a) = elements a"
  by (simp_all add: spread_def elements_def get_elem_def)

lemma length_elements: "length (elements a) = arr_length a"
  by (simp add: elements_def)

lemma swap_in_range:
  fixes a :: "'a js_array"
  assumes i: "i < arr_length a" and j: "j < arr_length a"
  shows "arr_length (swap a (int i) (int j)) = arr_length a"
    and "elements (swap a (int i) (int j)) = (elements a)[i := elements a ! j, j := elements a ! i]"
proof -
  let ?b = "swap a (int i) (int j)"
  show len: "arr_length ?b = arr_length a"
    using i j by (simp add: swap_def set_elem_def)
  show "elements ?b = (elements a)[i := elements a ! j, j := elements a ! i]"
  proof (rule nth_equalityI)
    show "length (elements ?b) = length ((elements a)[i := elements a ! j, j := elements a ! i])"
      using len by (simp add: length_elements)
  next
    fix k assume "k < length (elements ?b)"
    then have k: "k < arr_length a" using len by (simp add: length_elements)
    then show "elements ?b ! k = (elements a)[i := elements a ! j, j := elements a ! i] ! k"
      using i j len
      by (simp add: elements_def nth_list_update) (simp add: swap_def set_elem_def get_elem_def)
  qed
qed

lemma mset_swap_in_range:
  fixes a :: "'a js_array"
  assumes "i < arr_length a" "j < arr_length a"
  shows "mset (elements (swap a (int i) (int j))) = mset (elements a)"
  using assms by (simp add: swap_in_range(2) mset_swap length_elements)

lemma shuffleArray_loop_spec:
  "unit_interval g \<Longrightarrow> p < length h \<Longrightarrow> i < int (arr_length (h ! p)) \<Longrightarrow>
   length (fst (shuffleArray_loop i p h g)) = length h
   \<and> (\<forall>a < length h. a \<noteq> p \<longrightarrow> fst (shuffleArray_loop i p h g) ! a = h ! a)
   \<and> arr_length (fst (shuffleArray_loop i p h g) ! p) = arr_length (h ! p)
   \<and> mset (elements (fst (shuffleArray_loop i p h g) ! p)) = mset (elements (h ! p))"
proof (induction n \<equiv> "nat i" arbitrary: i h g)
  case 0
  then show ?case by (simp add: shuffleArray_loop.simps)
next
  case (Suc n)
  then have pos: "0 < i" by simp
  obtain r g' where rg: "Math_random g = (r, g')" by (cases "Math_random g")
  note r = Math_random_unit_interval(1,2) [OF Suc.prems(1) rg]
  note g' = Math_random_unit_interval(3) [OF Suc.prems(1) rg]
  define j where "j = Math_floor (multiply r (nat (i + 1)))"
  define b where "b = swap (h ! p) i j"
  have "0 < nat (i + 1)" using pos by simp
  from Math_floor_multiply [OF r this]
  have jr: "0 \<le> j" "j \<le> i" using pos by (simp_all add: j_def)
  have in_range: "nat i < arr_length (h ! p)" "nat j < arr_length (h ! p)"
    using Suc.prems(3) pos jr by simp_all
  have b_eq: "b = swap (h ! p) (int (nat i)) (int (nat j))"
    using pos jr by (simp add: b_def)
  have b_len: "arr_length b = arr_length (h ! p)"
    unfolding b_eq using in_range by (rule swap_in_range(1))
  have b_mset: "mset (elements b) = mset (elements (h ! p))"
    unfolding b_eq using in_range by (rule mset_swap_in_range)
  have step: "shuffleArray_loop i p h g = shuffleArray_loop (i - 1) p (h[p := b]) g'"
    using pos rg by (subst shuffleArray_loop.simps) (simp add: Let_def j_def b_def)
  have n: "n = nat (i - 1)" using Suc.hyps(2) by simp
  have p': "p < length (h[p := b])" using Suc.prems(2) by simp
  have i': "i - 1 < int (arr_length (h[p := b] ! p))"
    using Suc.prems(2,3) b_len by simp
  note IH = Suc.hyps(1) [OF n g' p' i']
  show ?case
    unfolding step using IH Suc.prems(2) b_len b_mset by simp
qed

text \<open>
  C9. For a valid reference \<open>array\<close> and a random source that keeps the language's
  promise, \<open>shuffleArray\<close> returns a reference that did not exist before, so a new array
  that is not the input; the new array has the length and the multiset of elements of the
  input; and every array that existed before the call, the input among them, is as it was.
\<close>

theorem shuffleArray_permutation:
  assumes "unit_interval g" and "array < length h"
  shows "fst (shuffleArray array h g) = length h
         \<and> fst (shuffleArray array h g) \<noteq> array
         \<and> length (fst (snd (shuffleArray array h g))) = Suc (length h)
         \<and> (\<forall>a < length h. fst (snd (shuffleArray array h g)) ! a = h ! a)
         \<and> arr_length (fst (snd (shuffleArray array h g)) ! fst (shuffleArray array h g))
             = arr_length (h ! array)
         \<and> mset (elements (fst (snd (shuffleArray array h g)) ! fst (shuffleArray array h g)))
             = mset (elements (h ! array))"
proof -
  let ?h1 = "h @ [spread (h ! array)]"
  let ?p = "length h"
  let ?i = "int (arr_length (?h1 ! ?p)) - 1"
  have p: "?p < length ?h1" by simp
  have i: "?i < int (arr_length (?h1 ! ?p))" by simp
  note L = shuffleArray_loop_spec [OF assms(1) p i]
  have res: "shuffleArray array h g
              = (?p, fst (shuffleArray_loop ?i ?p ?h1 g), snd (shuffleArray_loop ?i ?p ?h1 g))"
    by (simp add: shuffleArray_def Let_def split_beta)
  have old: "\<forall>a < length h. fst (shuffleArray_loop ?i ?p ?h1 g) ! a = h ! a"
    using L by (simp add: nth_append)
  show ?thesis
    unfolding res using L old assms(2) by (simp add: elements_spread)
qed

theorem shuffleArray_permutation_witness:
  "unit_interval
     (\<lambda>n. if n = 0 then \<lparr>numer = 6004799503160661, expo = 53\<rparr> else \<lparr>numer = 0, expo = 0\<rparr>)
   \<and> (0::nat) < length [array_of [1::nat, 2, 3]]
   \<and> fst (shuffleArray 0 [array_of [1::nat, 2, 3]]
        (\<lambda>n. if n = 0 then \<lparr>numer = 6004799503160661, expo = 53\<rparr> else \<lparr>numer = 0, expo = 0\<rparr>)) = 1
   \<and> map elements (fst (snd (shuffleArray 0 [array_of [1::nat, 2, 3]]
        (\<lambda>n. if n = 0 then \<lparr>numer = 6004799503160661, expo = 53\<rparr> else \<lparr>numer = 0, expo = 0\<rparr>))))
       = [[Value 1, Value 2, Value 3], [Value 2, Value 1, Value 3]]
   \<and> fst (snd (shuffleArray 0 [array_of [1::nat, 2, 3]]
        (\<lambda>n. if n = 0 then \<lparr>numer = 6004799503160661, expo = 53\<rparr> else \<lparr>numer = 0, expo = 0\<rparr>))) ! 0
       = array_of [1, 2, 3]
   \<and> mset (elements (fst (snd (shuffleArray 0 [array_of [1::nat, 2, 3]]
        (\<lambda>n. if n = 0 then \<lparr>numer = 6004799503160661, expo = 53\<rparr> else \<lparr>numer = 0, expo = 0\<rparr>))) ! 1))
       = mset (elements (array_of [1, 2, 3]))"
proof -
  let ?g = "\<lambda>n::nat. if n = 0 then \<lparr>numer = 6004799503160661, expo = 53\<rparr>
                      else \<lparr>numer = 0, expo = 0\<rparr>"
  let ?h = "[array_of [1::nat, 2, 3]]"
  have g: "unit_interval ?g" by (simp add: unit_interval_def)
  have a: "(0::nat) < length ?h" by simp
  have j2: "Math_floor (multiply \<lparr>numer = 6004799503160661, expo = 53\<rparr> 3) = 2"
    by (simp add: Math_floor_def multiply_def round53_def excess.simps Let_def)
  have j1: "Math_floor (multiply \<lparr>numer = 0, expo = 0\<rparr> 2) = 0"
    by (simp add: Math_floor_def multiply_def round53_def excess.simps Let_def)
  have v: "map elements (fst (snd (shuffleArray 0 ?h ?g)))
            = [[Value 1, Value 2, Value 3], [Value 2, Value 1, Value 3]]"
    by (simp add: shuffleArray_def shuffleArray_loop.simps Math_random_def swap_def set_elem_def
        get_elem_def spread_def array_of_def elements_def upt_conv_Cons j2 j1)
  note T = shuffleArray_permutation [OF g a]
  from T have p: "fst (shuffleArray 0 ?h ?g) = 1" by simp
  from T have old: "fst (snd (shuffleArray 0 ?h ?g)) ! 0 = array_of [1, 2, 3]" by simp
  from T have "mset (elements (fst (snd (shuffleArray 0 ?h ?g)) ! fst (shuffleArray 0 ?h ?g)))
                 = mset (elements (?h ! 0))" by blast
  then have m: "mset (elements (fst (snd (shuffleArray 0 ?h ?g)) ! 1))
                 = mset (elements (array_of [1, 2, 3]))" unfolding p by simp
  show ?thesis
    using g p v old m by simp
qed

subsection \<open>fetchWithTimeout\<close>

lemma run_unfold:
  "fetchWithTimeout run url options timeout w =
     (let c = next_handle w; id' = Suc c;
          w3 = w\<lparr>next_handle := Suc id', timers := (timers w)(id' \<mapsto> c),
                 trace := trace w @ [NewAbortController c, SetTimeout id' c timeout,
                                      Fetch url (options(''signal'' \<mapsto> Signal c))]\<rparr>
      in case run of
           Settles_first s \<Rightarrow> (Some (fst (try_block id' s w3)), snd (try_block id' s w3))
         | Timer_first after \<Rightarrow>
             (let w4 = w3\<lparr>timers := (timers w)(id' := None), aborted := insert c (aborted w),
                           trace := trace w3 @ [TimerFired id', Abort c]\<rparr>
              in case after of None \<Rightarrow> (None, w4)
                 | Some s \<Rightarrow> (Some (fst (try_block id' s w4)), snd (try_block id' s w4))))"
  by (simp add: fetchWithTimeout_def new_AbortController_def setTimeout_def fetch_def
      timer_fires_def abort_def Let_def split_beta split: transport_run.splits option.splits)

lemma try_block_fst:
  "fst (try_block id' s w :: ('e failure + 'r) \<times> ('u, 'v) world)
     = (case s of
          Resolved response \<Rightarrow> Inr response
        | Rejected Nullish \<Rightarrow> Inl TypeError
        | Rejected (Exception name x) \<Rightarrow>
            if name = Some ''AbortError'' then Inl (New_Error timeout_message)
            else Inl (Original (Exception name x)))"
  by (simp add: try_block_def catch_block_def Let_def
      split: settlement.splits js_exception.splits)

lemma try_block_snd:
  "snd (try_block id' s w :: ('e failure + 'r) \<times> ('u, 'v) world) = clearTimeout id' w"
  by (simp add: try_block_def catch_block_def Let_def
      split: settlement.splits js_exception.splits)

lemma fetchWithTimeout_outcome:
  "fst (fetchWithTimeout run url options timeout w)
     = (case run of
          Settles_first s \<Rightarrow> Some (fst (try_block 0 s w))
        | Timer_first None \<Rightarrow> None
        | Timer_first (Some s) \<Rightarrow> Some (fst (try_block 0 s w)))"
  by (simp add: run_unfold Let_def try_block_fst split: transport_run.splits option.splits)

lemma fetchWithTimeout_events:
  "new_events w (snd (fetchWithTimeout run url options timeout w))
     = [NewAbortController (next_handle w),
        SetTimeout (Suc (next_handle w)) (next_handle w) timeout,
        Fetch url (options(''signal'' \<mapsto> Signal (next_handle w)))]
       @ (case run of
            Settles_first s \<Rightarrow> [ClearTimeout (Suc (next_handle w))]
          | Timer_first None \<Rightarrow> [TimerFired (Suc (next_handle w)), Abort (next_handle w)]
          | Timer_first (Some s) \<Rightarrow>
              [TimerFired (Suc (next_handle w)), Abort (next_handle w),
               ClearTimeout (Suc (next_handle w))])"
  by (simp add: run_unfold Let_def try_block_snd clearTimeout_def new_events_def
      split: transport_run.splits option.splits)

lemma fetchWithTimeout_timers:
  "timers (snd (fetchWithTimeout run url options timeout w))
     = (timers w)(Suc (next_handle w) := None)"
  by (simp add: run_unfold Let_def try_block_snd clearTimeout_def
      split: transport_run.splits option.splits)


text \<open>
  C1, as stated, fails: the timer fires first and the signal is issued, but a transport
  that does not react to the signal and resolves makes the method return the response.
\<close>

theorem timer_first_not_always_TimedOut:
  "fst (fetchWithTimeout (Timer_first (Some (Resolved ''200 OK'')) :: (string, string) transport_run)
          ''https://example.org'' Map.empty 100 world0) = Some (Inr ''200 OK'')
   \<and> fst (fetchWithTimeout (Timer_first (Some (Resolved ''200 OK'')) :: (string, string) transport_run)
          ''https://example.org'' Map.empty 100 world0) \<noteq> Some (Inl (New_Error timeout_message))
   \<and> new_events world0
        (snd (fetchWithTimeout (Timer_first (Some (Resolved ''200 OK'')) :: (string, string) transport_run)
          ''https://example.org'' Map.empty 100 world0))
       = [NewAbortController 0, SetTimeout 1 0 100,
          Fetch ''https://example.org'' [''signal'' \<mapsto> Signal 0],
          TimerFired 1, Abort 0, ClearTimeout 1]"
  by (simp add: fetchWithTimeout_outcome fetchWithTimeout_events try_block_fst world0_def)

text \<open>
  C1, amended. In every call in which the timer fires before the request settles, the
  cancellation is issued exactly once, on the controller whose signal the transport was
  given. When the transport then rejects with an error named \<^verbatim>\<open>AbortError\<close>, the method
  fails with a new error that carries the fixed, non-empty message.
\<close>

theorem fetchWithTimeout_timed_out:
  fixes after after' :: "('r, 'e) settlement option"
  assumes "after = Some (Rejected (Exception (Some ''AbortError'') x))"
  shows "fst (fetchWithTimeout (Timer_first after) url options timeout w)
           = Some (Inl (New_Error timeout_message))
         \<and> timeout_message \<noteq> []
         \<and> filter is_Abort
              (new_events w (snd (fetchWithTimeout (Timer_first after') url options timeout w)))
            = [Abort (next_handle w)]
         \<and> requests
              (new_events w (snd (fetchWithTimeout (Timer_first after') url options timeout w)))
            = [(url, options(''signal'' \<mapsto> Signal (next_handle w)))]"
proof -
  have "fst (fetchWithTimeout (Timer_first after) url options timeout w)
          = Some (Inl (New_Error timeout_message))"
    using assms by (simp add: fetchWithTimeout_outcome try_block_fst)
  moreover have "timeout_message \<noteq> []" by (simp add: timeout_message_def)
  moreover have "filter is_Abort
       (new_events w (snd (fetchWithTimeout (Timer_first after') url options timeout w)))
     = [Abort (next_handle w)]"
    by (simp add: fetchWithTimeout_events split: option.splits)
  moreover have "requests
       (new_events w (snd (fetchWithTimeout (Timer_first after') url options timeout w)))
     = [(url, options(''signal'' \<mapsto> Signal (next_handle w)))]"
    by (simp add: fetchWithTimeout_events split: option.splits)
  ultimately show ?thesis by blast
qed

theorem fetchWithTimeout_timed_out_witness:
  "fst (fetchWithTimeout
          (Timer_first (Some (Rejected (Exception (Some ''AbortError'') ''The operation was aborted''))))
          ''https://example.org'' Map.empty 100 world0)
     = (Some (Inl (New_Error timeout_message)) :: (string failure + string) option)
   \<and> length timeout_message = 53
   \<and> filter is_Abort (new_events world0 (snd (fetchWithTimeout
          (Timer_first (Some (Rejected (Exception (Some ''AbortError'') ''The operation was aborted'')))
             :: (string, string) transport_run)
          ''https://example.org'' Map.empty 100 world0)))
     = [Abort 0]"
  using fetchWithTimeout_timed_out [OF refl, of "''The operation was aborted''"
      "''https://example.org''" Map.empty 100 world0
      "Some (Rejected (Exception (Some ''AbortError'') ''The operation was aborted''))
         :: (string, string) settlement option"]
  by (simp add: world0_def timeout_message_def)

text \<open>
  C2, as stated, fails: the transport rejects before the timer fires, so the method has
  cancelled nothing, but the error is named \<^verbatim>\<open>AbortError\<close> and the method replaces it
  by its own error.
\<close>

theorem AbortError_of_transport_is_replaced:
  "fst (fetchWithTimeout
          (Settles_first (Rejected (Exception (Some ''AbortError'') ''navigation'')))
          ''https://example.org'' Map.empty 5000 world0)
     = (Some (Inl (New_Error timeout_message)) :: (string failure + string) option)
   \<and> fst (fetchWithTimeout
          (Settles_first (Rejected (Exception (Some ''AbortError'') ''navigation'')))
          ''https://example.org'' Map.empty 5000 world0)
     \<noteq> (Some (Inl (Original (Exception (Some ''AbortError'') ''navigation'')))
          :: (string failure + string) option)
   \<and> filter is_Abort (new_events world0 (snd (fetchWithTimeout
          (Settles_first (Rejected (Exception (Some ''AbortError'') ''navigation''))
             :: (string, string) transport_run)
          ''https://example.org'' Map.empty 5000 world0)))
     = []"
  by (simp add: fetchWithTimeout_outcome fetchWithTimeout_events try_block_fst world0_def)

text \<open>
  C2, amended. Whenever the transport rejects with an error object whose name is not
  \<^verbatim>\<open>AbortError\<close>, before the timer fires or after it, the method fails with that very
  error, \<^verbatim>\<open>clearTimeout\<close> has been called on the timer of the call, and the timer is not
  pending.
\<close>

theorem fetchWithTimeout_rethrows_original:
  fixes run :: "('r, 'e) transport_run"
  assumes "name \<noteq> Some ''AbortError''"
    and "run = Settles_first (Rejected (Exception name x))
         \<or> run = Timer_first (Some (Rejected (Exception name x)))"
  shows "fst (fetchWithTimeout run url options timeout w)
           = Some (Inl (Original (Exception name x)))
         \<and> ClearTimeout (Suc (next_handle w))
             \<in> set (new_events w (snd (fetchWithTimeout run url options timeout w)))
         \<and> timers (snd (fetchWithTimeout run url options timeout w)) (Suc (next_handle w)) = None"
proof -
  have "fst (fetchWithTimeout run url options timeout w)
          = Some (Inl (Original (Exception name x)))"
    using assms by (auto simp: fetchWithTimeout_outcome try_block_fst)
  moreover have "ClearTimeout (Suc (next_handle w))
      \<in> set (new_events w (snd (fetchWithTimeout run url options timeout w)))"
    using assms(2) by (auto simp: fetchWithTimeout_events)
  moreover have
    "timers (snd (fetchWithTimeout run url options timeout w)) (Suc (next_handle w)) = None"
    by (simp add: fetchWithTimeout_timers)
  ultimately show ?thesis by blast
qed

theorem fetchWithTimeout_rethrows_original_witness:
  "Some ''TypeError'' \<noteq> Some ''AbortError''
   \<and> fst (fetchWithTimeout
          (Settles_first (Rejected (Exception (Some ''TypeError'') ''Failed to fetch'')))
          ''https://example.org'' Map.empty 5000 world0)
     = (Some (Inl (Original (Exception (Some ''TypeError'') ''Failed to fetch'')))
          :: (string failure + string) option)
   \<and> new_events world0 (snd (fetchWithTimeout
          (Settles_first (Rejected (Exception (Some ''TypeError'') ''Failed to fetch''))
             :: (string, string) transport_run)
          ''https://example.org'' Map.empty 5000 world0))
     = [NewAbortController 0, SetTimeout 1 0 5000,
        Fetch ''https://example.org'' [''signal'' \<mapsto> Signal 0], ClearTimeout 1]
   \<and> timers (snd (fetchWithTimeout
          (Settles_first (Rejected (Exception (Some ''TypeError'') ''Failed to fetch''))
             :: (string, string) transport_run)
          ''https://example.org'' Map.empty 5000 world0)) 1 = None"
proof -
  let ?run = "Settles_first (Rejected (Exception (Some ''TypeError'') ''Failed to fetch''))
                :: (string, string) transport_run"
  have n: "Some ''TypeError'' \<noteq> Some ''AbortError''" by simp
  have r: "?run = Settles_first (Rejected (Exception (Some ''TypeError'') ''Failed to fetch''))
           \<or> ?run = Timer_first (Some (Rejected (Exception (Some ''TypeError'') ''Failed to fetch'')))"
    by simp
  have e: "new_events world0 (snd (fetchWithTimeout ?run ''https://example.org'' Map.empty 5000 world0))
     = [NewAbortController 0, SetTimeout 1 0 5000,
        Fetch ''https://example.org'' [''signal'' \<mapsto> Signal 0], ClearTimeout 1]"
    by (simp add: fetchWithTimeout_events world0_def)
  show ?thesis
    using fetchWithTimeout_rethrows_original [OF n r, of "''https://example.org''" Map.empty 5000 world0]
      e
    by (simp add: world0_def)
qed

text \<open>
  C3. When the request is resolved before the timer fires, the method returns the response
  of the transport as it is; the call has made one controller, set one timer, called the
  transport once and cleared its timer, and the timer is not pending any more.
\<close>

theorem fetchWithTimeout_returns_response:
  "fst (fetchWithTimeout (Settles_first (Resolved response)) url options timeout w)
     = Some (Inr response)
   \<and> new_events w (snd (fetchWithTimeout (Settles_first (Resolved response)) url options timeout w))
     = [NewAbortController (next_handle w),
        SetTimeout (Suc (next_handle w)) (next_handle w) timeout,
        Fetch url (options(''signal'' \<mapsto> Signal (next_handle w))),
        ClearTimeout (Suc (next_handle w))]
   \<and> timers (snd (fetchWithTimeout (Settles_first (Resolved response)) url options timeout w))
     = (timers w)(Suc (next_handle w) := None)"
  by (simp add: fetchWithTimeout_outcome fetchWithTimeout_events fetchWithTimeout_timers
      try_block_fst)

text \<open>
  C4, as stated, fails: the caller has made a controller of their own and passes its
  signal, and the transport is given the signal of the controller of the method instead.
\<close>

theorem signal_of_caller_is_replaced:
  "[''method'' \<mapsto> Plain ''POST'', ''signal'' \<mapsto> Signal 0] ''signal'' = Some (Signal 0)
   \<and> received
        (new_events (snd (new_AbortController world0))
          (snd (fetchWithTimeout (Settles_first (Resolved ''200 OK'') :: (string, string) transport_run)
                 ''https://example.org''
                 [''method'' \<mapsto> Plain ''POST'', ''signal'' \<mapsto> Signal 0] 5000
                 (snd (new_AbortController world0)))))
        ''signal''
      = [Some (Signal 1)]"
  by (simp add: fetchWithTimeout_events received_def new_AbortController_def world0_def)

text \<open>
  C4, amended. The transport is called once, with the target of the caller and with
  options that agree with the options of the caller on every name other than
  \<^verbatim>\<open>signal\<close>; the \<^verbatim>\<open>signal\<close> it is given is the signal of the controller of the call.
\<close>

theorem fetchWithTimeout_passes_options:
  "requests (new_events w (snd (fetchWithTimeout run url options timeout w)))
     = [(url, options(''signal'' \<mapsto> Signal (next_handle w)))]
   \<and> (\<forall>k. k \<noteq> ''signal'' \<longrightarrow>
          received (new_events w (snd (fetchWithTimeout run url options timeout w))) k
            = [options k])
   \<and> received (new_events w (snd (fetchWithTimeout run url options timeout w))) ''signal''
     = [Some (Signal (next_handle w))]"
  by (simp add: fetchWithTimeout_events received_def split: transport_run.splits option.splits)

theorem fetchWithTimeout_passes_options_witness:
  "''method'' \<noteq> ''signal''
   \<and> received
        (new_events world0
          (snd (fetchWithTimeout (Settles_first (Resolved ''200 OK'') :: (string, string) transport_run)
                 ''https://example.org''
                 [''method'' \<mapsto> Plain ''POST'', ''body'' \<mapsto> Plain ''x=1''] 5000 world0)))
        ''method''
      = [Some (Plain ''POST'')]"
  using fetchWithTimeout_passes_options
    [of world0 "Settles_first (Resolved ''200 OK'') :: (string, string) transport_run"
      "''https://example.org''" "[''method'' \<mapsto> Plain ''POST'', ''body'' \<mapsto> Plain ''x=1'']" 5000]
  by simp

text \<open>
  C5. Every call sets exactly one timer. After the call that timer is not pending, and
  when the call returns or throws, \<^verbatim>\<open>clearTimeout\<close> has been called on it.
\<close>

theorem fetchWithTimeout_clears_timer:
  "filter is_SetTimeout (new_events w (snd (fetchWithTimeout run url options timeout w)))
     = [SetTimeout (Suc (next_handle w)) (next_handle w) timeout]
   \<and> timers (snd (fetchWithTimeout run url options timeout w)) (Suc (next_handle w)) = None
   \<and> (fst (fetchWithTimeout run url options timeout w) \<noteq> None \<longrightarrow>
        ClearTimeout (Suc (next_handle w))
          \<in> set (new_events w (snd (fetchWithTimeout run url options timeout w))))"
  by (simp add: fetchWithTimeout_outcome fetchWithTimeout_events fetchWithTimeout_timers
      split: transport_run.splits option.splits)

theorem fetchWithTimeout_clears_timer_witness:
  "fst (fetchWithTimeout
          (Timer_first (Some (Rejected (Exception (Some ''AbortError'') ''aborted''))))
          ''https://example.org'' Map.empty 100 world0)
     = (Some (Inl (New_Error timeout_message)) :: (string failure + string) option)
   \<and> ClearTimeout 1
       \<in> set (new_events world0 (snd (fetchWithTimeout
            (Timer_first (Some (Rejected (Exception (Some ''AbortError'') ''aborted'')))
               :: (string, string) transport_run)
            ''https://example.org'' Map.empty 100 world0)))
   \<and> timers (snd (fetchWithTimeout
            (Timer_first (Some (Rejected (Exception (Some ''AbortError'') ''aborted'')))
               :: (string, string) transport_run)
            ''https://example.org'' Map.empty 100 world0)) 1 = None"
proof -
  let ?run = "Timer_first (Some (Rejected (Exception (Some ''AbortError'') ''aborted'')))
                :: (string, string) transport_run"
  have o: "fst (fetchWithTimeout ?run ''https://example.org'' Map.empty 100 world0)
            = (Some (Inl (New_Error timeout_message)) :: (string failure + string) option)"
    by (simp add: fetchWithTimeout_outcome try_block_fst)
  show ?thesis
    using fetchWithTimeout_clears_timer [of world0 ?run "''https://example.org''" Map.empty 100] o
    by (simp add: world0_def)
qed

lemma seen_options_signal:
  "seen_options (options(''signal'' \<mapsto> Signal c)) = (seen_options options)(''signal'' \<mapsto> Seen_signal)"
  by (rule ext) (simp add: seen_options_def)

lemma fetchWithTimeout_on_run:
  "fetchWithTimeout_on p T url options timeout w
     = fetchWithTimeout
         (race p (T url ((seen_options options)(''signal'' \<mapsto> Seen_signal))) (timer_delay p timeout))
         url options timeout w"
  by (simp add: fetchWithTimeout_on_def fetchWithTimeout_def event_loop_def
      new_AbortController_def setTimeout_def fetch_def seen_options_signal Let_def)


lemma fetchWithTimeout_world_independent:
  "fst (fetchWithTimeout run url options timeout w)
     = fst (fetchWithTimeout run url options timeout w')"
  by (simp add: fetchWithTimeout_outcome try_block_fst split: transport_run.splits option.splits)

lemma fetchWithTimeout_on_asks:
  "seen_requests (new_events w (snd (fetchWithTimeout_on p T url options timeout w)))
     = [(url, (seen_options options)(''signal'' \<mapsto> Seen_signal))]"
  "timeouts_set (new_events w (snd (fetchWithTimeout_on p T url options timeout w))) = [timeout]"
  by (simp_all add: fetchWithTimeout_on_run fetchWithTimeout_events seen_requests_def
      seen_options_signal split: transport_run.splits option.splits)

text \<open>
  C6. Two calls with the same inputs on the same platform and transport, in whatever worlds
  they are made: both put the same request to the transport, which is the target and the
  options of the caller with a signal, and both set their timer with the timeout of the
  caller; their outcomes are equal, and so of the same kind. This holds in particular when
  the second call follows the first.
\<close>

theorem fetchWithTimeout_on_same_kind:
  "seen_requests (new_events w1 (snd (fetchWithTimeout_on p T url options timeout w1)))
     = [(url, (seen_options options)(''signal'' \<mapsto> Seen_signal))]
   \<and> seen_requests (new_events w2 (snd (fetchWithTimeout_on p T url options timeout w2)))
     = [(url, (seen_options options)(''signal'' \<mapsto> Seen_signal))]
   \<and> timeouts_set (new_events w1 (snd (fetchWithTimeout_on p T url options timeout w1)))
     = [timeout]
   \<and> timeouts_set (new_events w2 (snd (fetchWithTimeout_on p T url options timeout w2)))
     = [timeout]
   \<and> fst (fetchWithTimeout_on p T url options timeout w1)
     = fst (fetchWithTimeout_on p T url options timeout w2)
   \<and> kind (fst (fetchWithTimeout_on p T url options timeout w1))
     = kind (fst (fetchWithTimeout_on p T url options timeout w2))
   \<and> kind (fst (fetchWithTimeout_on p T url options timeout
                  (snd (fetchWithTimeout_on p T url options timeout w1))))
     = kind (fst (fetchWithTimeout_on p T url options timeout w1))"
proof -
  have e: "fst (fetchWithTimeout_on p T url options timeout w)
             = fst (fetchWithTimeout_on p T url options timeout w')" for w w'
    unfolding fetchWithTimeout_on_run by (rule fetchWithTimeout_world_independent)
  from e [of w1 w2] e [of "snd (fetchWithTimeout_on p T url options timeout w1)" w1]
  show ?thesis by (simp add: fetchWithTimeout_on_asks)
qed




end
